theory Spec2Isabelle
  imports Complex_Main "HOL-Library.Log_Nat"
begin

section \<open>JavaScript values used by the scraper\<close>

subsection \<open>Strings\<close>

text \<open>
  A JavaScript string is a sequence of UTF-16 code units. The price texts carry
  characters beyond Latin-1 (the manat sign U+20BC, no-break spaces), so a string is
  modelled as the list of its code units; \<open>js\<close> embeds an ASCII literal.
\<close>

type_synonym jsstr = "nat list"

definition js :: "string \<Rightarrow> jsstr" where
  "js s = map of_char s"

text \<open>A value that is a string or \<^verbatim>\<open>undefined\<close> (the argument of \<^verbatim>\<open>cleanAndParse\<close>).\<close>

datatype jsval = Undefined | Str jsstr

definition is_digit :: "nat \<Rightarrow> bool" where
  "is_digit c = (48 \<le> c \<and> c \<le> 57)"

definition dot :: nat where "dot = 46"
definition comma :: nat where "comma = 44"

text \<open>
  \<^verbatim>\<open>\s\<close> of a regular expression and the characters \<^verbatim>\<open>trim\<close> removes: the
  ECMAScript WhiteSpace and LineTerminator code points.
\<close>

definition is_space :: "nat \<Rightarrow> bool" where
  "is_space c = (c \<in> set [9, 10, 11, 12, 13, 32, 160, 5760, 8232, 8233, 8239, 8287, 12288, 65279]
                 \<or> (8192 \<le> c \<and> c \<le> 8202))"

text \<open>\<^verbatim>\<open>s.replace(',', '.')\<close> with a string pattern: only the first occurrence.\<close>

fun replace_first :: "nat \<Rightarrow> nat \<Rightarrow> jsstr \<Rightarrow> jsstr" where
  "replace_first a b [] = []"
| "replace_first a b (c # cs) = (if c = a then b # cs else c # replace_first a b cs)"

definition startsWith :: "jsstr \<Rightarrow> jsstr \<Rightarrow> bool" where
  "startsWith s p = (take (length p) s = p)"

definition trim :: "jsstr \<Rightarrow> jsstr" where
  "trim s = rev (dropWhile is_space (rev (dropWhile is_space s)))"

text \<open>\<^verbatim>\<open>a || b\<close> on strings: the first operand unless it is empty.\<close>

definition or_else :: "jsstr \<Rightarrow> jsstr \<Rightarrow> jsstr" where
  "or_else a b = (if a \<noteq> [] then a else b)"

subsection \<open>Numbers\<close>

text \<open>
  A JavaScript number is an IEEE 754 binary64 value. A finite one is kept as the
  rational it denotes; every arithmetic result is rounded to the nearest double, ties to
  even. Negative zero is left out: every number of the price pipeline comes from an
  unsigned decimal text or from a subtraction guarded by \<^verbatim>\<open>orgPrice > price\<close>.
\<close>

datatype jsnum = NaN | PInf | NInf | Fin rat

definition pow2 :: "int \<Rightarrow> rat" where
  "pow2 e = (if 0 \<le> e then 2 ^ nat e else 1 / 2 ^ nat (- e))"

text \<open>
  \<open>ilog2 a\<close> is the integer part of the binary logarithm of a positive rational: the
  \<open>k\<close> with \<open>2\<^sup>k \<le> a < 2\<^sup>k\<^sup>+\<^sup>1\<close>, read off the bit length of the integer part of \<open>a\<close>,
  or of \<open>1 / a\<close> rounded up when \<open>a < 1\<close>.
\<close>

definition ilog2 :: "rat \<Rightarrow> int" where
  "ilog2 a = (if 1 \<le> a then bitlen \<lfloor>a\<rfloor> - 1 else - bitlen (\<lceil>1 / a\<rceil> - 1))"

text \<open>\<open>round_half_even r\<close>: the integer nearest to \<open>r\<close>, a tie going to the even one.\<close>

definition round_half_even :: "rat \<Rightarrow> int" where
  "round_half_even r =
     (let f = \<lfloor>r\<rfloor>; t = r - of_int f
      in if t < 1 / 2 then f else if 1 / 2 < t then f + 1 else if even f then f else f + 1)"

text \<open>
  Rounding a rational to binary64: with \<open>e\<close> the exponent of the last place (53
  significant bits, never below the subnormal exponent \<open>-1074\<close>), the significand is
  \<open>\<bar>q\<bar> / 2\<^sup>e\<close> rounded to an integer \<open>m\<close>. The result \<open>m * 2\<^sup>e\<close> overflows to an infinity
  when it reaches \<open>2\<^sup>1\<^sup>0\<^sup>2\<^sup>4\<close>, that is when \<open>m\<close> has more than \<open>1024 - e\<close> bits.
\<close>

definition round_double :: "rat \<Rightarrow> jsnum" where
  "round_double q =
     (if q = 0 then Fin 0
      else let a = \<bar>q\<bar>;
               e = max (ilog2 a - 52) (- 1074);
               m = round_half_even (a / pow2 e)
           in if 1024 < bitlen m + e then (if 0 < q then PInf else NInf)
              else Fin (sgn q * of_int m * pow2 e))"

fun js_sub :: "jsnum \<Rightarrow> jsnum \<Rightarrow> jsnum" where
  "js_sub (Fin x) (Fin y) = round_double (x - y)"
| "js_sub NaN _ = NaN"
| "js_sub _ NaN = NaN"
| "js_sub PInf PInf = NaN"
| "js_sub NInf NInf = NaN"
| "js_sub PInf _ = PInf"
| "js_sub NInf _ = NInf"
| "js_sub (Fin _) PInf = NInf"
| "js_sub (Fin _) NInf = PInf"

fun js_div :: "jsnum \<Rightarrow> jsnum \<Rightarrow> jsnum" where
  "js_div (Fin x) (Fin y) =
     (if y = 0 then (if x = 0 then NaN else if 0 < x then PInf else NInf)
      else round_double (x / y))"
| "js_div NaN _ = NaN"
| "js_div _ NaN = NaN"
| "js_div (Fin _) _ = Fin 0"
| "js_div PInf (Fin y) = (if 0 \<le> y then PInf else NInf)"
| "js_div NInf (Fin y) = (if 0 \<le> y then NInf else PInf)"
| "js_div _ _ = NaN"

fun js_mul :: "jsnum \<Rightarrow> jsnum \<Rightarrow> jsnum" where
  "js_mul (Fin x) (Fin y) = round_double (x * y)"
| "js_mul NaN _ = NaN"
| "js_mul _ NaN = NaN"
| "js_mul PInf (Fin y) = (if y = 0 then NaN else if 0 < y then PInf else NInf)"
| "js_mul NInf (Fin y) = (if y = 0 then NaN else if 0 < y then NInf else PInf)"
| "js_mul (Fin x) PInf = (if x = 0 then NaN else if 0 < x then PInf else NInf)"
| "js_mul (Fin x) NInf = (if x = 0 then NaN else if 0 < x then NInf else PInf)"
| "js_mul PInf PInf = PInf"
| "js_mul NInf NInf = PInf"
| "js_mul PInf NInf = NInf"
| "js_mul NInf PInf = NInf"

text \<open>\<^verbatim>\<open>a > b\<close>, \<^verbatim>\<open>a >= b\<close> and \<^verbatim>\<open>a === b\<close>: every comparison with NaN is false.\<close>

fun js_gt :: "jsnum \<Rightarrow> jsnum \<Rightarrow> bool" where
  "js_gt (Fin x) (Fin y) = (y < x)"
| "js_gt NaN _ = False"
| "js_gt _ NaN = False"
| "js_gt NInf _ = False"
| "js_gt _ PInf = False"
| "js_gt PInf _ = True"
| "js_gt (Fin _) NInf = True"

fun js_strict_eq :: "jsnum \<Rightarrow> jsnum \<Rightarrow> bool" where
  "js_strict_eq NaN _ = False"
| "js_strict_eq _ NaN = False"
| "js_strict_eq a b = (a = b)"

definition js_ge :: "jsnum \<Rightarrow> jsnum \<Rightarrow> bool" where
  "js_ge a b = (js_gt a b \<or> js_strict_eq a b)"

text \<open>\<^verbatim>\<open>Math.round\<close>: the nearest integer, a tie going towards plus infinity.\<close>

fun Math_round :: "jsnum \<Rightarrow> jsnum" where
  "Math_round (Fin x) = Fin (of_int \<lfloor>x + 1 / 2\<rfloor>)"
| "Math_round n = n"

subsection \<open>parseFloat\<close>

text \<open>
  \<^verbatim>\<open>cleanAndParse\<close> hands \<^verbatim>\<open>parseFloat\<close> a text made of digits, dots and commas only, so
  of the builtin's grammar (StrDecimalLiteral) the sign, the exponent, \<^verbatim>\<open>Infinity\<close> and
  leading white space cannot occur. What remains: the longest prefix of the form
  digits, digits \<^verbatim>\<open>.\<close> digits (either side possibly empty, not both); no such prefix gives
  NaN. The decimal value is rounded to the nearest double.
\<close>

definition digits_val :: "jsstr \<Rightarrow> int" where
  "digits_val ds = foldl (\<lambda>a c. 10 * a + (int c - 48)) 0 ds"

definition parseFloat :: "jsstr \<Rightarrow> jsnum" where
  "parseFloat s =
     (let ip = takeWhile is_digit s;
          r = dropWhile is_digit s;
          fp = (case r of [] \<Rightarrow> [] | c # cs \<Rightarrow> if c = dot then takeWhile is_digit cs else [])
      in if ip = [] \<and> fp = [] then NaN
         else round_double (of_int (digits_val ip) + of_int (digits_val fp) / 10 ^ length fp))"

section \<open>The page and the field extractor\<close>

text \<open>
  The extraction runs in the page, on the DOM. An element is kept with what the code
  reads of it: tag name (lower case), class list, the \<^verbatim>\<open>href\<close> attribute as
  \<^verbatim>\<open>getAttribute\<close> returns it (\<open>None\<close> for \<^verbatim>\<open>null\<close>), the \<^verbatim>\<open>href\<close> and \<^verbatim>\<open>src\<close>
  properties as the browser resolves them, its rendered \<^verbatim>\<open>innerText\<close>, and its children
  in document order.
\<close>

datatype element =
  Element (tag: string) (classes: "string list") (href_attr: "jsstr option")
    (href: jsstr) (src: jsstr) (innerText: jsstr) (children: "element list")

text \<open>The selectors of the code: a type selector, or one or more classes of one element.\<close>

datatype selector = Tag string | Classes "string list"

fun matches :: "selector \<Rightarrow> element \<Rightarrow> bool" where
  "matches (Tag t) el = (tag el = t)"
| "matches (Classes cs) el = list_all (\<lambda>c. c \<in> set (classes el)) cs"

fun descendants :: "element \<Rightarrow> element list" where
  "descendants (Element t cl ha h s txt cs) = concat (map (\<lambda>c. c # descendants c) cs)"

definition querySelector :: "element \<Rightarrow> selector \<Rightarrow> element option" where
  "querySelector el sel = find (matches sel) (descendants el)"

definition querySelectorAll :: "element \<Rightarrow> selector \<Rightarrow> element list" where
  "querySelectorAll doc sel = filter (matches sel) (descendants doc)"

text \<open>\<^verbatim>\<open>const getTxt = (sel) => el.querySelector(sel) ? el.querySelector(sel).innerText : ''\<close>\<close>

definition getTxt :: "element \<Rightarrow> selector \<Rightarrow> jsstr" where
  "getTxt el sel = (case querySelector el sel of Some e \<Rightarrow> innerText e | None \<Rightarrow> [])"

record titled =
  title :: jsstr

record rawitem = titled +
  priceStr :: jsstr
  orgPriceStr :: jsstr
  link :: jsstr
  img :: jsstr

subsection \<open>The price pattern of server.js\<close>

text \<open>
  \<^verbatim>\<open>text.match(/([0-9.,]+)\s*(?:TL|<manat>|AZN)/gi)\<close>, where \<^verbatim>\<open><manat>\<close> is U+20BC. The
  three parts of the pattern start with characters of disjoint classes (a digit, dot or
  comma; white space; a letter or the manat sign), so giving back characters of a
  greedy part never lets a later part match: an attempt at a position succeeds exactly
  when the longest runs do. Under the flag \<^verbatim>\<open>i\<close> the letters match in either case.
\<close>

definition is_price_char :: "nat \<Rightarrow> bool" where
  "is_price_char c = (is_digit c \<or> c = dot \<or> c = comma)"

definition upper :: "nat \<Rightarrow> nat" where
  "upper c = (if 97 \<le> c \<and> c \<le> 122 then c - 32 else c)"

definition manat :: nat where "manat = 8380"

definition currency_marker :: "jsstr \<Rightarrow> nat option" where
  "currency_marker s =
     (if map upper (take 2 s) = js ''TL'' then Some 2
      else if take 1 s = [manat] then Some 1
      else if map upper (take 3 s) = js ''AZN'' then Some 3
      else None)"

text \<open>The length of the match that starts at the head of the text, if there is one.\<close>

definition match_here :: "jsstr \<Rightarrow> nat option" where
  "match_here s =
     (let num = takeWhile is_price_char s;
          r1 = dropWhile is_price_char s;
          ws = takeWhile is_space r1;
          r2 = dropWhile is_space r1
      in if num = [] then None
         else case currency_marker r2 of
                None \<Rightarrow> None
              | Some k \<Rightarrow> Some (length num + length ws + k))"

text \<open>
  The global match: every match from left to right, each search starting where the
  previous match ended. JavaScript returns \<^verbatim>\<open>null\<close> for no match; here the empty list.
\<close>

fun match_prices :: "jsstr \<Rightarrow> jsstr list" where
  "match_prices [] = []"
| "match_prices (c # cs) =
     (case match_here (c # cs) of
        None \<Rightarrow> match_prices cs
      | Some n \<Rightarrow> take n (c # cs) # match_prices (drop (n - 1) cs))"

subsection \<open>One item card\<close>

text \<open>The repository holds two variants of the program; they differ in the price texts.\<close>

datatype variant = ServerJs | Part000

definition sale_price_text :: "element \<Rightarrow> jsstr" where
  "sale_price_text el =
     or_else (getTxt el (Classes [''sale-price'']))
       (or_else (getTxt el (Classes [''prc-box-dscntd'']))
          (or_else (getTxt el (Classes [''prc-box-sllng'']))
             (getTxt el (Classes [''discounted-price'']))))"

definition original_price_text :: "element \<Rightarrow> jsstr" where
  "original_price_text el =
     or_else (getTxt el (Classes [''strikethrough-price'']))
       (or_else (getTxt el (Classes [''prc-box-orgnl'']))
          (getTxt el (Classes [''original-price''])))"

text \<open>
  server.js: the selectors, then the pattern over the whole card text when the sale
  price is missing, then \<^verbatim>\<open>if (!orgPrice) orgPrice = price\<close>. The pair is (price, orgPrice).
\<close>

definition prices_server :: "element \<Rightarrow> jsstr \<times> jsstr" where
  "prices_server el =
     (let price0 = sale_price_text el;
          orgPrice0 = original_price_text el;
          (price, orgPrice) =
            (if price0 = [] then
               (let priceMatch = match_prices (innerText el)
                in if priceMatch \<noteq> [] then
                     (if 1 < length priceMatch
                      then (priceMatch ! (length priceMatch - 1), priceMatch ! 0)
                      else (priceMatch ! 0, orgPrice0))
                   else (price0, orgPrice0))
             else (price0, orgPrice0))
      in (price, if orgPrice = [] then price else orgPrice))"

text \<open>The other variant: the selectors only, the original price defaulting to the price.\<close>

definition prices_part000 :: "element \<Rightarrow> jsstr \<times> jsstr" where
  "prices_part000 el =
     (let price = sale_price_text el;
          orgPrice = or_else (original_price_text el) price
      in (price, orgPrice))"

definition trendyol_origin :: jsstr where
  "trendyol_origin = js ''https://www.trendyol.com''"

text \<open>
  \<^verbatim>\<open>el.getAttribute('href') || (el.querySelector('a') ? el.querySelector('a').href : '')\<close>
\<close>

definition raw_link :: "element \<Rightarrow> jsstr" where
  "raw_link el =
     or_else (case href_attr el of Some h \<Rightarrow> h | None \<Rightarrow> [])
       (case querySelector el (Tag ''a'') of Some a \<Rightarrow> href a | None \<Rightarrow> [])"

definition extractItem :: "variant \<Rightarrow> element \<Rightarrow> rawitem" where
  "extractItem v el =
     (let brand = or_else (getTxt el (Classes [''product-brand'']))
                    (getTxt el (Classes [''prdct-desc-cntnr-ttl'']));
          name = or_else (getTxt el (Classes [''product-name'']))
                   (or_else (getTxt el (Classes [''prdct-desc-cntnr-name'']))
                      (getTxt el (Classes [''fn'', ''name''])));
          (price, orgPrice) = (case v of ServerJs \<Rightarrow> prices_server el | Part000 \<Rightarrow> prices_part000 el);
          lnk = raw_link el;
          image = (case querySelector el (Tag ''img'') of Some i \<Rightarrow> src i | None \<Rightarrow> [])
      in \<lparr>title = trim (brand @ js '' '' @ name),
          priceStr = price,
          orgPriceStr = orgPrice,
          link = (if startsWith lnk (js ''http'') then lnk else trendyol_origin @ lnk),
          img = image\<rparr>)"

text \<open>\<^verbatim>\<open>document.querySelectorAll(selector).forEach(el => ... items.push(...))\<close>\<close>

definition extractItems :: "variant \<Rightarrow> element \<Rightarrow> selector \<Rightarrow> rawitem list" where
  "extractItems v doc sel = map (extractItem v) (querySelectorAll doc sel)"

section \<open>Price normalisation and discount (the map over the raw items)\<close>

text \<open>\<^verbatim>\<open>str.replace(/[^0-9,.]/g, '')\<close>.\<close>

definition strip_price :: "jsstr \<Rightarrow> jsstr" where
  "strip_price str = filter (\<lambda>c. is_digit c \<or> c = comma \<or> c = dot) str"

definition cleanAndParse :: "jsval \<Rightarrow> jsnum" where
  "cleanAndParse v =
     (case v of
        Undefined \<Rightarrow> Fin 0
      | Str str \<Rightarrow>
          if str = [] then Fin 0
          else let s = strip_price str
               in if comma \<in> set s \<and> dot \<in> set s
                  then parseFloat (replace_first comma dot (filter (\<lambda>c. c \<noteq> dot) s))
                  else if comma \<in> set s then parseFloat (replace_first comma dot s)
                  else parseFloat s)"

record product = titled +
  price :: jsnum
  original_price :: jsnum
  discount_rate :: jsnum
  image_url :: jsstr
  product_url :: jsstr
  platform :: jsstr
  external_id :: jsstr

text \<open>
  The body of \<^verbatim>\<open>products.map(p => ...)\<close>. A raw item has no \<^verbatim>\<open>product_url\<close> field, so
  \<^verbatim>\<open>p.product_url || p.link\<close> is \<^verbatim>\<open>p.link\<close>.
\<close>

definition toProduct :: "jsstr \<Rightarrow> rawitem \<Rightarrow> product" where
  "toProduct platformKey p =
     (let price = cleanAndParse (Str (priceStr p));
          orgPrice0 = cleanAndParse (Str (orgPriceStr p));
          orgPrice = (if js_strict_eq orgPrice0 (Fin 0) then price else orgPrice0);
          discount = (if js_gt orgPrice price \<and> js_gt orgPrice (Fin 0)
                      then js_mul (js_div (js_sub orgPrice price) orgPrice) (Fin 100)
                      else Fin 0)
      in \<lparr>title = title p,
          price = price,
          original_price = orgPrice,
          discount_rate = Math_round discount,
          image_url = img p,
          product_url = link p,
          platform = platformKey,
          external_id = link p\<rparr>)"

text \<open>\<^verbatim>\<open>.filter(p => p.discount_rate >= 40 && p.price > 0)\<close>\<close>

definition keep :: "product \<Rightarrow> bool" where
  "keep p = (js_ge (discount_rate p) (Fin 40) \<and> js_gt (price p) (Fin 0))"

definition validProducts :: "jsstr \<Rightarrow> rawitem list \<Rightarrow> product list" where
  "validProducts platformKey products = filter keep (map (toProduct platformKey) products)"

section \<open>The scrape cycle\<close>

subsection \<open>The platform registry\<close>

text \<open>
  \<^verbatim>\<open>CONFIG\<close> is an object literal with two own properties (the field \<^verbatim>\<open>parser: null\<close> is
  never read). \<^verbatim>\<open>CONFIG[platformKey]\<close> is an ordinary property read: a key that is not
  an own property is looked up in \<^verbatim>\<open>Object.prototype\<close>, whose properties are functions
  (and, for \<^verbatim>\<open>__proto__\<close>, the prototype object itself): truthy values that have neither a
  \<^verbatim>\<open>url\<close> nor a \<^verbatim>\<open>selector\<close>.
\<close>

record platform_config =
  url :: jsstr
  selector :: selector

definition CONFIG :: "jsstr \<Rightarrow> platform_config option" where
  "CONFIG key =
     (if key = js ''trendyol'' then
        Some \<lparr>url = js ''https://www.trendyol.com/sr?wc=103328&fl=en-cok-one-cikanlar'',
              selector = Classes [''product-card-jfy'']\<rparr>
      else if key = js ''temu'' then
        Some \<lparr>url = js ''https://www.temu.com/az/channel/lightning-deals.html'',
              selector = Classes [''goods-item'']\<rparr>
      else None)"

definition Object_prototype_keys :: "jsstr list" where
  "Object_prototype_keys =
     map js [''constructor'', ''__defineGetter__'', ''__defineSetter__'', ''hasOwnProperty'',
             ''__lookupGetter__'', ''__lookupSetter__'', ''isPrototypeOf'',
             ''propertyIsEnumerable'', ''toString'', ''valueOf'', ''__proto__'',
             ''toLocaleString'']"

datatype config_value = Own platform_config | Inherited

text \<open>\<^verbatim>\<open>CONFIG[platformKey]\<close>; \<open>None\<close> is \<^verbatim>\<open>undefined\<close>, the only falsy result.\<close>

definition CONFIG_get :: "jsstr \<Rightarrow> config_value option" where
  "CONFIG_get key =
     (case CONFIG key of
        Some c \<Rightarrow> Some (Own c)
      | None \<Rightarrow> if key \<in> set Object_prototype_keys then Some Inherited else None)"

text \<open>
  \<^verbatim>\<open>config.url\<close> (\<open>None\<close> for \<^verbatim>\<open>undefined\<close>) and \<^verbatim>\<open>config.selector\<close>; an undefined
  selector reaches \<^verbatim>\<open>querySelectorAll\<close> as the text \<^verbatim>\<open>undefined\<close>, a type selector.
\<close>

fun config_url :: "config_value \<Rightarrow> jsstr option" where
  "config_url (Own c) = Some (url c)"
| "config_url Inherited = None"

fun config_selector :: "config_value \<Rightarrow> selector" where
  "config_selector (Own c) = selector c"
| "config_selector Inherited = Tag ''undefined''"

subsection \<open>The collaborators\<close>

text \<open>
  Every \<^verbatim>\<open>await\<close> of the cycle is a call into Playwright or the Supabase client. Its
  result is an input of the model: the call resolves, or it rejects with an error whose
  \<^verbatim>\<open>message\<close> is kept.
\<close>

datatype 'a await = Resolved 'a | Rejected jsstr

text \<open>The \<^verbatim>\<open>{ data, error }\<close> of an upsert: \<open>None\<close> is \<^verbatim>\<open>null\<close>.\<close>

record upsert_reply =
  reply_data :: "product list option"
  reply_error :: "jsstr option"

record world =
  launch :: "unit await"
  newContext :: "unit await"
  addCookies :: "unit await"
  newPage :: "unit await"
  goto :: "jsstr option \<Rightarrow> unit await"
  scroll :: "unit await"
  waitForTimeout :: "unit await"
  document :: "element await"
  upsert :: "nat \<Rightarrow> product \<Rightarrow> upsert_reply await"
  close :: "unit await"

text \<open>
  \<open>document\<close> is the page the extraction's \<^verbatim>\<open>page.evaluate\<close> runs on (or its
  failure); \<open>upsert w i\<close> answers the \<open>i\<close>-th upsert of the cycle.
\<close>

subsection \<open>The response\<close>

record summary =
  total_found :: nat
  filtered_count :: nat
  saved_count :: nat
  data :: "product list"
  debug_raw_data :: "rawitem list"

datatype response = Error_payload jsstr | Success summary

text \<open>
  What \<^verbatim>\<open>scrape\<close> does for its caller: it returns a payload, or its promise rejects.
  Beside it the model keeps the life of the browser: \<open>Launch\<close> when
  \<^verbatim>\<open>chromium.launch\<close> has handed out a browser, \<open>Close\<close> when \<^verbatim>\<open>browser.close()\<close> is called.
\<close>

datatype outcome = Returned response | Thrown jsstr

datatype event = Launch | Close

subsection \<open>Saving\<close>

text \<open>
  The loop over \<^verbatim>\<open>validProducts\<close>:
  \<^verbatim>\<open>if (!error && data) savedItems.push(data[0])\<close>. An empty array is truthy, and its
  element 0 is \<^verbatim>\<open>undefined\<close> (\<open>None\<close>). A rejected upsert leaves the loop.
\<close>

definition first_row :: "product list \<Rightarrow> product option" where
  "first_row rows = (case rows of [] \<Rightarrow> None | r # _ \<Rightarrow> Some r)"

fun save_all :: "world \<Rightarrow> nat \<Rightarrow> product list \<Rightarrow> product option list \<Rightarrow> product option list await" where
  "save_all w i [] savedItems = Resolved savedItems"
| "save_all w i (p # rest) savedItems =
     (case upsert w i p of
        Rejected m \<Rightarrow> Rejected m
      | Resolved r \<Rightarrow>
          (case (reply_error r, reply_data r) of
             (None, Some rows) \<Rightarrow> save_all w (Suc i) rest (savedItems @ [first_row rows])
           | _ \<Rightarrow> save_all w (Suc i) rest savedItems))"

subsection \<open>scrape\<close>

text \<open>
  The \<^verbatim>\<open>try\<close> block with its \<^verbatim>\<open>catch\<close>: navigation, the scroll, the settle pause, the
  extraction in the page, the map and filter, the saving. Every rejection inside is
  caught and becomes \<^verbatim>\<open>{ error: e.message }\<close>.
\<close>

definition try_block :: "variant \<Rightarrow> world \<Rightarrow> jsstr \<Rightarrow> config_value \<Rightarrow> response" where
  "try_block v w platformKey config =
     (case goto w (config_url config) of
        Rejected m \<Rightarrow> Error_payload m
      | Resolved _ \<Rightarrow>
     (case scroll w of
        Rejected m \<Rightarrow> Error_payload m
      | Resolved _ \<Rightarrow>
     (case waitForTimeout w of
        Rejected m \<Rightarrow> Error_payload m
      | Resolved _ \<Rightarrow>
     (case document w of
        Rejected m \<Rightarrow> Error_payload m
      | Resolved doc \<Rightarrow>
          (let products = extractItems v doc (config_selector config);
               valid = validProducts platformKey products
           in case save_all w 0 valid [] of
                Rejected m \<Rightarrow> Error_payload m
              | Resolved savedItems \<Rightarrow>
                  Success \<lparr>total_found = length products,
                           filtered_count = length valid,
                           saved_count = length savedItems,
                           data = take 50 valid,
                           debug_raw_data = take 10 products\<rparr>)))))"

text \<open>
  The browser is set up before the \<^verbatim>\<open>try\<close>: \<^verbatim>\<open>launch\<close>, \<^verbatim>\<open>newContext\<close>, in server.js
  \<^verbatim>\<open>addCookies\<close>, and \<^verbatim>\<open>newPage\<close>. A rejection there leaves \<^verbatim>\<open>scrape\<close> at once. The
  \<^verbatim>\<open>finally\<close> clause closes the browser after the \<^verbatim>\<open>try\<close> block; if \<^verbatim>\<open>close\<close> rejects, that
  error replaces the payload.
\<close>

definition acquire_page :: "variant \<Rightarrow> world \<Rightarrow> unit await" where
  "acquire_page v w =
     (case newContext w of
        Rejected m \<Rightarrow> Rejected m
      | Resolved _ \<Rightarrow>
     (case (case v of ServerJs \<Rightarrow> addCookies w | Part000 \<Rightarrow> Resolved ()) of
        Rejected m \<Rightarrow> Rejected m
      | Resolved _ \<Rightarrow> newPage w))"

definition scrape :: "variant \<Rightarrow> world \<Rightarrow> jsstr \<Rightarrow> outcome \<times> event list" where
  "scrape v w platformKey =
     (case CONFIG_get platformKey of
        None \<Rightarrow> (Returned (Error_payload (js ''Platform not supported'')), [])
      | Some config \<Rightarrow>
     (case launch w of
        Rejected m \<Rightarrow> (Thrown m, [])
      | Resolved _ \<Rightarrow>
     (case acquire_page v w of
        Rejected m \<Rightarrow> (Thrown m, [Launch])
      | Resolved _ \<Rightarrow>
          (let result = try_block v w platformKey config
           in case close w of
                Rejected m \<Rightarrow> (Thrown m, [Launch, Close])
              | Resolved _ \<Rightarrow> (Returned result, [Launch, Close])))))"

section \<open>Reference formulations and sample inputs\<close>

text \<open>
  The discount rule in the words of the specification: the rounded percentage
  \<^verbatim>\<open>when originalPrice > price > 0, else 0\<close>.
\<close>

definition discount_spec :: "jsnum \<Rightarrow> jsnum \<Rightarrow> jsnum" where
  "discount_spec salePrice originalPrice =
     (if js_gt originalPrice salePrice \<and> js_gt salePrice (Fin 0)
      then Math_round (js_mul (js_div (js_sub originalPrice salePrice) originalPrice) (Fin 100))
      else Fin 0)"

text \<open>A number that is neither negative nor minus infinity (NaN included).\<close>

definition unsigned :: "jsnum \<Rightarrow> bool" where
  "unsigned n = (case n of Fin x \<Rightarrow> 0 \<le> x | NInf \<Rightarrow> False | _ \<Rightarrow> True)"

text \<open>A raw item with the given price texts.\<close>

definition priced :: "jsstr \<Rightarrow> jsstr \<Rightarrow> rawitem" where
  "priced p orig = \<lparr>title = js ''Item'', priceStr = p, orgPriceStr = orig,
                     link = js ''https://www.trendyol.com/item-p-1'', img = []\<rparr>"

text \<open>
  A run in which every collaborator answers: each call resolves (navigation rejects an
  undefined address, as Playwright's argument check does), the page is \<open>doc\<close>, and the
  store returns the row it was given.
\<close>

definition answering :: "element \<Rightarrow> world" where
  "answering doc =
     \<lparr>launch = Resolved (), newContext = Resolved (), addCookies = Resolved (),
      newPage = Resolved (),
      goto = (\<lambda>u. case u of None \<Rightarrow> Rejected (js ''url: expected string, got undefined'')
                   | Some _ \<Rightarrow> Resolved ()),
      scroll = Resolved (), waitForTimeout = Resolved (), document = Resolved doc,
      upsert = (\<lambda>i p. Resolved \<lparr>reply_data = Some [p], reply_error = None\<rparr>),
      close = Resolved ()\<rparr>"

definition span :: "string \<Rightarrow> jsstr \<Rightarrow> element" where
  "span cls txt = Element ''span'' [cls] None [] [] txt []"

text \<open>A card without any price element, the prices standing in its text only.\<close>

definition text_card :: element where
  "text_card =
     Element ''div'' [''product-card-jfy''] None [] [] (js ''Was 100 TL now 60 tl'') []"

text \<open>A Temu page: one card, itself a link with a site-relative \<^verbatim>\<open>href\<close>.\<close>

definition temu_page :: element where
  "temu_page =
     Element ''html'' [] None [] [] (js ''Lamp 50 TL 100 TL'')
       [Element ''a'' [''goods-item''] (Some (js ''/goods.html?id=1''))
          (js ''https://www.temu.com/goods.html?id=1'') [] (js ''Lamp 50 TL 100 TL'')
          [span ''product-name'' (js ''Lamp''),
           span ''sale-price'' (js ''50 TL''),
           span ''strikethrough-price'' (js ''100 TL'')]]"

text \<open>A Trendyol page with two cards: a kettle at half price and a mug at full price.\<close>

definition trendyol_page :: element where
  "trendyol_page =
     Element ''html'' [] None [] [] []
       [Element ''div'' [''product-card-jfy''] None [] [] []
          [span ''product-brand'' (js ''Acme''),
           span ''product-name'' (js ''Kettle''),
           span ''sale-price'' (js ''80 '' @ [manat]),
           span ''strikethrough-price'' (js ''160 '' @ [manat]),
           Element ''a'' [] (Some (js ''/kettle-p-7'')) (js ''https://www.trendyol.com/kettle-p-7'')
             [] [] [],
           Element ''img'' [] None [] (js ''https://cdn.dsmcdn.com/kettle.jpg'') [] []],
        Element ''div'' [''product-card-jfy''] None [] [] []
          [span ''prdct-desc-cntnr-name'' (js ''Mug''),
           span ''prc-box-sllng'' (js ''90 TL'')]]"

section \<open>Evaluation rules\<close>

text \<open>Floor and ceiling of rational numerals, and the bit length of a numeral.\<close>

lemma floor_rat_numeral_div:
  "\<lfloor>(numeral a :: rat) / numeral b\<rfloor> = numeral a div numeral b"
  using floor_divide_of_int_eq [of "numeral a" "numeral b", where ?'a = rat] by simp

lemma floor_rat_one_div:
  "\<lfloor>(1 :: rat) / numeral b\<rfloor> = 1 div numeral b"
  using floor_divide_of_int_eq [of 1 "numeral b", where ?'a = rat] by simp

lemma ceiling_rat_numeral_div:
  "\<lceil>(numeral a :: rat) / numeral b\<rceil> = - (- numeral a div numeral b)"
  using floor_divide_of_int_eq [of "- numeral a" "numeral b", where ?'a = rat]
  by (simp add: ceiling_def)

lemma ceiling_rat_one_div:
  "\<lceil>(1 :: rat) / numeral b\<rceil> = - (- 1 div numeral b)"
  using floor_divide_of_int_eq [of "- 1" "numeral b", where ?'a = rat]
  by (simp add: ceiling_def)

lemma bitlen_numeral_eval:
  "bitlen (numeral (Num.Bit0 n)) = bitlen (numeral n) + 1"
  "bitlen (numeral (Num.Bit1 n)) = bitlen (numeral n) + 1"
  "bitlen 1 = 1"
  by (subst compute_bitlen, simp)+

lemmas num_eval = floor_rat_numeral_div floor_rat_one_div ceiling_rat_numeral_div
  ceiling_rat_one_div bitlen_numeral_eval round_double_def ilog2_def round_half_even_def
  pow2_def Let_def

lemmas str_eval = js_def is_digit_def dot_def comma_def is_space_def strip_price_def
  digits_val_def parseFloat_def cleanAndParse_def

lemmas dom_eval = querySelector_def querySelectorAll_def getTxt_def or_else_def
  sale_price_text_def original_price_text_def prices_server_def prices_part000_def
  raw_link_def extractItem_def extractItems_def trim_def startsWith_def trendyol_origin_def
  span_def is_price_char_def upper_def manat_def currency_marker_def match_here_def Let_def

lemma js_Nil_iff: "js s = [] \<longleftrightarrow> s = []"
  by (simp add: js_def)

text \<open>Sanity checks of the rounding: values every JavaScript engine prints.\<close>

lemma round_double_tenth: "round_double (1 / 10) = Fin (3602879701896397 / 36028797018963968)"
  by (simp add: num_eval)

lemma round_double_ties_to_even:
  "round_double 9007199254740993 = Fin 9007199254740992"
  "round_double 9007199254740995 = Fin 9007199254740996"
  by (simp_all add: num_eval)

lemma round_double_overflow: "round_double (2 ^ 1024) = PInf"
  by (simp add: num_eval)

section \<open>Numbers of the price pipeline are unsigned\<close>

lemma pow2_pos: "0 < pow2 e"
  by (simp add: pow2_def)

lemma round_half_even_nonneg: "0 \<le> r \<Longrightarrow> 0 \<le> round_half_even r"
  by (simp add: round_half_even_def Let_def)

lemma round_double_unsigned: "0 \<le> q \<Longrightarrow> unsigned (round_double q)"
  by (simp add: round_double_def unsigned_def Let_def pow2_pos round_half_even_nonneg
      less_imp_le)

lemma digits_val_acc_nonneg:
  "0 \<le> a \<Longrightarrow> list_all is_digit ds \<Longrightarrow> 0 \<le> foldl (\<lambda>a c. 10 * a + (int c - 48)) a ds"
  by (induction ds arbitrary: a) (simp_all add: is_digit_def)

lemma digits_val_nonneg: "0 \<le> digits_val (takeWhile is_digit s)"
proof -
  have "list_all is_digit (takeWhile is_digit s)"
    by (induction s) simp_all
  then show ?thesis
    by (simp add: digits_val_def digits_val_acc_nonneg)
qed

lemma parseFloat_unsigned: "unsigned (parseFloat s)"
proof -
  have "unsigned (round_double (of_int (digits_val (takeWhile is_digit s))
          + of_int (digits_val (takeWhile is_digit t)) / 10 ^ n))" for t n
    by (rule round_double_unsigned) (simp add: digits_val_nonneg)
  moreover have "unsigned (round_double (of_int (digits_val (takeWhile is_digit s))))"
    by (rule round_double_unsigned) (simp add: digits_val_nonneg)
  moreover have "unsigned NaN"
    by (simp add: unsigned_def)
  moreover have "digits_val [] = 0"
    by (simp add: digits_val_def)
  ultimately show ?thesis
    by (simp add: parseFloat_def Let_def split: list.split)
qed

lemma unsigned_zero: "unsigned (Fin 0)"
  by (simp add: unsigned_def)

lemma cleanAndParse_unsigned: "unsigned (cleanAndParse v)"
  by (cases v) (simp_all add: cleanAndParse_def Let_def parseFloat_unsigned unsigned_zero)

lemma guard_agrees:
  assumes "unsigned p" "p \<noteq> Fin 0"
  shows "(js_gt orig p \<and> js_gt orig (Fin 0)) = (js_gt orig p \<and> js_gt p (Fin 0))"
  using assms by (cases p; cases orig) (auto simp: unsigned_def)

lemma js_gt_irrefl: "\<not> js_gt a a"
  by (cases a) simp_all

lemma floor_half: "\<lfloor>(1::rat) / 2\<rfloor> = 0"
  by (simp add: floor_eq_iff)

section \<open>The rounding is to the nearest double\<close>

text \<open>
  What makes \<open>round_double\<close> the rounding of binary64: \<open>ilog2\<close> is the binary exponent,
  \<open>round_half_even\<close> is within one half of its argument, and a finite result is within
  half a unit in the last place of the exact value.
\<close>

lemma round_half_even_near: "\<bar>of_int (round_half_even r) - r\<bar> \<le> 1 / 2"
proof -
  have "of_int \<lfloor>r\<rfloor> \<le> r" "r < of_int \<lfloor>r\<rfloor> + 1"
    by linarith+
  then show ?thesis
    by (simp add: round_half_even_def Let_def abs_le_iff)
qed

lemma pow_le_of_int: "(2 :: int) ^ k \<le> n \<Longrightarrow> (2 :: rat) ^ k \<le> of_int n"
proof -
  assume "(2 :: int) ^ k \<le> n"
  then have "(of_int ((2 :: int) ^ k) :: rat) \<le> of_int n"
    by (simp only: of_int_le_iff)
  then show ?thesis by simp
qed

lemma of_int_le_pow: "n \<le> (2 :: int) ^ k \<Longrightarrow> (of_int n :: rat) \<le> 2 ^ k"
proof -
  assume "n \<le> (2 :: int) ^ k"
  then have "(of_int n :: rat) \<le> of_int ((2 :: int) ^ k)"
    by (simp only: of_int_le_iff)
  then show ?thesis by simp
qed

lemma ilog2_bounds_ge1:
  assumes "1 \<le> a"
  shows "pow2 (ilog2 a) \<le> a \<and> a < pow2 (ilog2 a + 1)"
proof -
  let ?n = "\<lfloor>a\<rfloor>"
  from assms have n: "0 < ?n" by linarith
  from bitlen_bounds [OF n] have b: "2 ^ nat (bitlen ?n - 1) \<le> ?n" "?n < 2 ^ nat (bitlen ?n)"
    by auto
  have bl: "1 \<le> bitlen ?n" using n by (auto simp: bitlen_alt_def)
  have "(2 :: rat) ^ nat (bitlen ?n - 1) \<le> of_int ?n"
    using b(1) by (rule pow_le_of_int)
  also have "\<dots> \<le> a" by (rule of_int_floor_le)
  finally have lo: "(2 :: rat) ^ nat (bitlen ?n - 1) \<le> a" .
  have "?n + 1 \<le> 2 ^ nat (bitlen ?n)" using b(2) by simp
  then have "(of_int (?n + 1) :: rat) \<le> 2 ^ nat (bitlen ?n)"
    by (rule of_int_le_pow)
  moreover have "a < of_int (?n + 1)" by simp linarith
  ultimately have hi: "a < (2 :: rat) ^ nat (bitlen ?n)"
    by (rule less_le_trans [rotated])
  show ?thesis
    using lo hi bl by (simp add: ilog2_def pow2_def assms)
qed

lemma ilog2_bounds_lt1:
  assumes "0 < a" "a < 1"
  shows "pow2 (ilog2 a) \<le> a \<and> a < pow2 (ilog2 a + 1)"
proof -
  let ?c = "\<lceil>1 / a\<rceil>"
  let ?j = "bitlen (?c - 1)"
  from assms have inv: "1 < 1 / a" by simp
  then have c: "0 < ?c - 1" by linarith
  from bitlen_bounds [OF c] have b: "2 ^ nat (?j - 1) \<le> ?c - 1" "?c - 1 < 2 ^ nat ?j"
    by auto
  have j: "1 \<le> ?j" using c by (auto simp: bitlen_alt_def)
  have "(2 :: rat) ^ nat (?j - 1) \<le> of_int (?c - 1)"
    using b(1) by (rule pow_le_of_int)
  also have "\<dots> < 1 / a" by simp linarith
  finally have lo: "(2 :: rat) ^ nat (?j - 1) < 1 / a" .
  have "?c \<le> 2 ^ nat ?j" using b(2) by simp
  then have "(of_int ?c :: rat) \<le> 2 ^ nat ?j"
    by (rule of_int_le_pow)
  moreover have "1 / a \<le> of_int ?c" by (rule le_of_int_ceiling)
  ultimately have hi: "1 / a \<le> (2 :: rat) ^ nat ?j"
    by (rule order_trans [rotated])
  from hi assms(1) have lo': "1 / 2 ^ nat ?j \<le> a"
    by (simp add: field_simps)
  from lo assms(1) have hi': "a < 1 / 2 ^ nat (?j - 1)"
    by (simp add: field_simps)
  have il: "ilog2 a = - ?j"
    using assms by (simp add: ilog2_def)
  show ?thesis
  proof (cases "?j = 1")
    case True
    with lo' hi' show ?thesis
      unfolding il by (simp add: pow2_def)
  next
    case False
    with j have j2: "2 \<le> ?j" by simp
    then have "nat (- (1 - ?j)) = nat (?j - 1)" by simp
    with lo' hi' j2 show ?thesis
      unfolding il by (simp add: pow2_def)
  qed
qed

lemma ilog2_bounds: "0 < a \<Longrightarrow> pow2 (ilog2 a) \<le> a \<and> a < pow2 (ilog2 a + 1)"
  using ilog2_bounds_ge1 [of a] ilog2_bounds_lt1 [of a] by (cases "1 \<le> a") auto


lemma pow2_power_int: "pow2 e = 2 powi e"
  by (simp add: pow2_def power_int_def inverse_eq_divide power_one_over)

lemma pow2_add: "pow2 (a + b) = pow2 a * pow2 b"
  by (simp add: pow2_power_int power_int_add)

lemma scale_abs:
  fixes p :: rat
  assumes "0 < p"
  shows "\<bar>m * p - a\<bar> = \<bar>m - a / p\<bar> * p"
proof -
  have "\<bar>m - a / p\<bar> * p = \<bar>m - a / p\<bar> * \<bar>p\<bar>"
    using assms by simp
  also have "\<dots> = \<bar>(m - a / p) * p\<bar>"
    by (simp only: abs_mult)
  also have "(m - a / p) * p = m * p - a"
    using assms by (simp add: field_simps)
  finally show ?thesis by simp
qed

lemma sgn_abs_diff:
  fixes q :: rat
  assumes "q \<noteq> 0"
  shows "\<bar>sgn q * x - q\<bar> = \<bar>x - \<bar>q\<bar>\<bar>"
proof (cases "0 < q")
  case True
  then show ?thesis by simp
next
  case False
  with assms have "q < 0" by simp
  then have "\<bar>sgn q * x - q\<bar> = \<bar>- (x + q)\<bar>" by simp
  also have "\<dots> = \<bar>x + q\<bar>" by (simp only: abs_minus)
  finally show ?thesis using \<open>q < 0\<close> by simp
qed

text \<open>A finite result lies within half a unit in the last place of the exact value.\<close>

lemma round_double_near:
  assumes "round_double q = Fin v" "q \<noteq> 0"
  shows "\<bar>v - q\<bar> \<le> pow2 (max (ilog2 \<bar>q\<bar> - 52) (- 1074)) / 2"
proof -
  let ?e = "max (ilog2 \<bar>q\<bar> - 52) (- 1074)"
  let ?m = "round_half_even (\<bar>q\<bar> / pow2 ?e)"
  from assms have v: "v = sgn q * (of_int ?m * pow2 ?e)"
    by (simp add: round_double_def Let_def mult.assoc split: if_splits)
  have "\<bar>v - q\<bar> = \<bar>of_int ?m * pow2 ?e - \<bar>q\<bar>\<bar>"
    unfolding v using assms(2) by (rule sgn_abs_diff)
  also have "\<dots> = \<bar>of_int ?m - \<bar>q\<bar> / pow2 ?e\<bar> * pow2 ?e"
    by (rule scale_abs) (rule pow2_pos)
  also have "\<dots> \<le> 1 / 2 * pow2 ?e"
    using round_half_even_near [of "\<bar>q\<bar> / pow2 ?e"] pow2_pos [of ?e]
    by (intro mult_right_mono) simp_all
  finally show ?thesis by simp
qed

section \<open>Texts without a digit\<close>

lemma no_digit_takeWhile: "\<not> list_ex is_digit s \<Longrightarrow> takeWhile is_digit s = []"
  by (cases s) simp_all

lemma parseFloat_no_digit: "\<not> list_ex is_digit s \<Longrightarrow> parseFloat s = NaN"
  by (cases s) (simp_all add: parseFloat_def Let_def no_digit_takeWhile)

lemma replace_first_no_digit:
  "\<not> list_ex is_digit s \<Longrightarrow> \<not> is_digit b \<Longrightarrow> \<not> list_ex is_digit (replace_first a b s)"
  by (induction s) simp_all

lemma filter_no_digit: "\<not> list_ex is_digit s \<Longrightarrow> \<not> list_ex is_digit (filter P s)"
  by (induction s) simp_all

lemma dot_no_digit: "\<not> is_digit dot"
  by (simp add: is_digit_def dot_def)

section \<open>The cycle: saving and the life of the browser\<close>

lemma save_all_length:
  "save_all w i ps acc = Resolved saved \<Longrightarrow> length saved \<le> length acc + length ps"
proof (induction ps arbitrary: i acc)
  case Nil
  then show ?case by simp
next
  case (Cons p ps)
  show ?case
  proof (cases "upsert w i p")
    case (Rejected m)
    with Cons.prems show ?thesis by simp
  next
    case (Resolved r)
    show ?thesis
    proof (cases "reply_error r = None \<and> reply_data r \<noteq> None")
      case True
      with Cons.prems Resolved
      have "save_all w (Suc i) ps (acc @ [first_row (the (reply_data r))]) = Resolved saved"
        by auto
      from Cons.IH [OF this] show ?thesis by simp
    next
      case False
      with Cons.prems Resolved have "save_all w (Suc i) ps acc = Resolved saved"
        by (auto split: option.splits)
      from Cons.IH [OF this] show ?thesis by simp
    qed
  qed
qed

lemma answering_calls:
  "launch (answering doc) = Resolved ()"
  "goto (answering doc) (Some u) = Resolved ()"
  "goto (answering doc) None = Rejected (js ''url: expected string, got undefined'')"
  "scroll (answering doc) = Resolved ()"
  "waitForTimeout (answering doc) = Resolved ()"
  "document (answering doc) = Resolved doc"
  "upsert (answering doc) i p = Resolved \<lparr>reply_data = Some [p], reply_error = None\<rparr>"
  "close (answering doc) = Resolved ()"
  by (simp_all add: answering_def)

lemma answering_page: "acquire_page v (answering doc) = Resolved ()"
  by (cases v) (simp_all add: acquire_page_def answering_def)

text \<open>A key that is found nowhere is refused at once, and no browser is launched.\<close>

lemma unknown_key_refused:
  "CONFIG_get key = None \<Longrightarrow>
     scrape v w key = (Returned (Error_payload (js ''Platform not supported'')), [])"
  by (simp add: scrape_def)

lemma unknown_key_refused_example:
  "scrape v w (js ''foo'') = (Returned (Error_payload (js ''Platform not supported'')), [])"
  by (simp add: scrape_def CONFIG_get_def CONFIG_def Object_prototype_keys_def js_def)

text \<open>
  Once the page is there, the \<^verbatim>\<open>finally\<close> clause closes the browser on every path
  through the \<^verbatim>\<open>try\<close> block, whatever it returns.
\<close>

lemma browser_closed_after_try:
  "CONFIG_get key = Some config \<Longrightarrow> launch w = Resolved () \<Longrightarrow>
     acquire_page v w = Resolved () \<Longrightarrow> snd (scrape v w key) = [Launch, Close]"
  by (simp add: scrape_def Let_def split: await.split)

section \<open>The claims\<close>

text \<open>
  C1, as amended. The discount rate of the product made from a raw item is the
  rounded percentage when the original price is above the price and above 0, and 0
  otherwise; the guard of the code does not ask for a positive price. The rate is the
  specification's rule (\<open>discount_spec\<close>) for every price other than 0, so for every
  product that passes the filter.
\<close>

theorem discount_rate_rule:
  "discount_rate (toProduct k p) =
     (if js_gt (original_price (toProduct k p)) (price (toProduct k p))
         \<and> js_gt (original_price (toProduct k p)) (Fin 0)
      then Math_round
             (js_mul (js_div (js_sub (original_price (toProduct k p)) (price (toProduct k p)))
                        (original_price (toProduct k p))) (Fin 100))
      else Fin 0)
   \<and> (price (toProduct k p) \<noteq> Fin 0 \<longrightarrow>
        discount_rate (toProduct k p)
          = discount_spec (price (toProduct k p)) (original_price (toProduct k p)))"
proof -
  let ?pr = "cleanAndParse (Str (priceStr p))"
  let ?o = "cleanAndParse (Str (orgPriceStr p))"
  let ?orig = "if js_strict_eq ?o (Fin 0) then ?pr else ?o"
  have sel: "price (toProduct k p) = ?pr" "original_price (toProduct k p) = ?orig"
    by (simp_all add: toProduct_def Let_def)
  have rate: "discount_rate (toProduct k p) =
      (if js_gt ?orig ?pr \<and> js_gt ?orig (Fin 0)
       then Math_round (js_mul (js_div (js_sub ?orig ?pr) ?orig) (Fin 100)) else Fin 0)"
    by (simp add: toProduct_def Let_def floor_half)
  have agree: "?pr \<noteq> Fin 0 \<Longrightarrow>
      (js_gt ?orig ?pr \<and> js_gt ?orig (Fin 0)) = (js_gt ?orig ?pr \<and> js_gt ?pr (Fin 0))"
    by (rule guard_agrees) (rule cleanAndParse_unsigned)
  show ?thesis
    unfolding sel rate discount_spec_def using agree by simp
qed

text \<open>The rule at the texts \<^verbatim>\<open>80 TL\<close> and \<^verbatim>\<open>160 TL\<close>: 50 percent, as the specification says.\<close>

theorem discount_rate_rule_witness:
  "price (toProduct (js ''trendyol'') (priced (js ''80 TL'') (js ''160 TL''))) = Fin 80
   \<and> original_price (toProduct (js ''trendyol'') (priced (js ''80 TL'') (js ''160 TL''))) = Fin 160
   \<and> discount_rate (toProduct (js ''trendyol'') (priced (js ''80 TL'') (js ''160 TL''))) = Fin 50
   \<and> discount_spec (Fin 80) (Fin 160) = Fin 50"
proof -
  have t: "toProduct (js ''trendyol'') (priced (js ''80 TL'') (js ''160 TL'')) =
      \<lparr>title = js ''Item'', price = Fin 80, original_price = Fin 160, discount_rate = Fin 50,
       image_url = [], product_url = js ''https://www.trendyol.com/item-p-1'',
       platform = js ''trendyol'', external_id = js ''https://www.trendyol.com/item-p-1''\<rparr>"
    by (simp add: priced_def toProduct_def str_eval num_eval)
  from discount_rate_rule [of "js ''trendyol''" "priced (js ''80 TL'') (js ''160 TL'')",
      THEN conjunct2]
  have "Fin 50 = discount_spec (Fin 80) (Fin 160)"
    unfolding t by simp
  then show ?thesis
    unfolding t by simp
qed

text \<open>
  C1 as stated fails: a price text \<^verbatim>\<open>0 TL\<close> beside an original price \<^verbatim>\<open>100 TL\<close> gives
  the rate 100, where the specification's rule gives 0.
\<close>

theorem discount_at_price_zero:
  "price (toProduct (js ''trendyol'') (priced (js ''0 TL'') (js ''100 TL''))) = Fin 0
   \<and> original_price (toProduct (js ''trendyol'') (priced (js ''0 TL'') (js ''100 TL''))) = Fin 100
   \<and> discount_rate (toProduct (js ''trendyol'') (priced (js ''0 TL'') (js ''100 TL''))) = Fin 100
   \<and> discount_spec (Fin 0) (Fin 100) = Fin 0
   \<and> discount_rate (toProduct (js ''trendyol'') (priced (js ''0 TL'') (js ''100 TL'')))
       \<noteq> discount_spec (price (toProduct (js ''trendyol'') (priced (js ''0 TL'') (js ''100 TL''))))
            (original_price (toProduct (js ''trendyol'') (priced (js ''0 TL'') (js ''100 TL''))))"
proof -
  have t: "toProduct (js ''trendyol'') (priced (js ''0 TL'') (js ''100 TL'')) =
      \<lparr>title = js ''Item'', price = Fin 0, original_price = Fin 100, discount_rate = Fin 100,
       image_url = [], product_url = js ''https://www.trendyol.com/item-p-1'',
       platform = js ''trendyol'', external_id = js ''https://www.trendyol.com/item-p-1''\<rparr>"
    by (simp add: priced_def toProduct_def str_eval num_eval)
  show ?thesis
    unfolding t by (simp add: discount_spec_def)
qed

text \<open>
  C2. \<^verbatim>\<open>cleanAndParse\<close> follows the fixed separator rule. With both a comma and a dot
  in the stripped text, the dots are removed and the first comma becomes the decimal
  point; with a comma only, the first comma becomes the decimal point; without a comma
  the stripped text is parsed as it is. So \<^verbatim>\<open>1.250,50\<close> is 1250.5, \<^verbatim>\<open>28,07\<close> is the
  double 28.07, and \<^verbatim>\<open>1.200\<close> is the double 1.2, not 1200.
\<close>

theorem cleanAndParse_separator_rule:
  "(str \<noteq> [] \<and> comma \<in> set (strip_price str) \<and> dot \<in> set (strip_price str) \<longrightarrow>
      cleanAndParse (Str str)
        = parseFloat (replace_first comma dot (filter (\<lambda>c. c \<noteq> dot) (strip_price str))))
   \<and> (str \<noteq> [] \<and> comma \<in> set (strip_price str) \<and> dot \<notin> set (strip_price str) \<longrightarrow>
      cleanAndParse (Str str) = parseFloat (replace_first comma dot (strip_price str)))
   \<and> (str \<noteq> [] \<and> comma \<notin> set (strip_price str) \<longrightarrow>
      cleanAndParse (Str str) = parseFloat (strip_price str))
   \<and> cleanAndParse (Str (js ''1.250,50'')) = Fin (2501 / 2)
   \<and> cleanAndParse (Str (js ''28,07'')) = round_double (2807 / 100)
   \<and> cleanAndParse (Str (js ''1.200'')) = round_double (12 / 10)
   \<and> cleanAndParse (Str (js ''1.200'')) \<noteq> Fin 1200"
proof -
  have a: "cleanAndParse (Str (js ''1.250,50'')) = Fin (2501 / 2)"
    by (simp add: str_eval num_eval)
  have b: "cleanAndParse (Str (js ''28,07'')) = round_double (2807 / 100)"
    by (simp add: str_eval)
  have c: "cleanAndParse (Str (js ''1.200'')) = round_double (12 / 10)"
    by (simp add: str_eval)
  have d: "round_double (12 / 10) \<noteq> Fin 1200"
    by (simp add: num_eval)
  show ?thesis
    unfolding a b c using d by (simp add: cleanAndParse_def Let_def)
qed

theorem cleanAndParse_separator_rule_witness:
  "js ''1.250,50'' \<noteq> []
   \<and> comma \<in> set (strip_price (js ''1.250,50'')) \<and> dot \<in> set (strip_price (js ''1.250,50''))
   \<and> replace_first comma dot (filter (\<lambda>c. c \<noteq> dot) (strip_price (js ''1.250,50'')))
       = js ''1250.50''
   \<and> cleanAndParse (Str (js ''1.250,50'')) = parseFloat (js ''1250.50'')
   \<and> parseFloat (js ''1250.50'') = Fin (2501 / 2)"
proof -
  have h: "js ''1.250,50'' \<noteq> [] \<and> comma \<in> set (strip_price (js ''1.250,50''))
      \<and> dot \<in> set (strip_price (js ''1.250,50''))"
    by (simp add: str_eval)
  have r: "replace_first comma dot (filter (\<lambda>c. c \<noteq> dot) (strip_price (js ''1.250,50'')))
      = js ''1250.50''"
    by (simp add: str_eval)
  have v: "parseFloat (js ''1250.50'') = Fin (2501 / 2)"
    by (simp add: str_eval num_eval)
  from cleanAndParse_separator_rule [of "js ''1.250,50''", THEN conjunct1] h
  have "cleanAndParse (Str (js ''1.250,50''))
      = parseFloat (replace_first comma dot (filter (\<lambda>c. c \<noteq> dot) (strip_price (js ''1.250,50''))))"
    by blast
  with h r v show ?thesis
    by simp
qed

text \<open>
  C3, as amended. \<^verbatim>\<open>cleanAndParse\<close> yields 0 for \<^verbatim>\<open>undefined\<close> and for the empty text.
  For a text that is not empty and holds no digit (letters only, say) it yields NaN.
\<close>

theorem cleanAndParse_empty_or_digitless:
  "cleanAndParse Undefined = Fin 0
   \<and> cleanAndParse (Str []) = Fin 0
   \<and> (str \<noteq> [] \<and> \<not> list_ex is_digit str \<longrightarrow> cleanAndParse (Str str) = NaN)"
  by (simp add: cleanAndParse_def Let_def strip_price_def parseFloat_no_digit
      replace_first_no_digit filter_no_digit dot_no_digit)

theorem cleanAndParse_empty_or_digitless_witness:
  "js ''abc'' \<noteq> [] \<and> \<not> list_ex is_digit (js ''abc'') \<and> cleanAndParse (Str (js ''abc'')) = NaN"
proof -
  have h: "js ''abc'' \<noteq> [] \<and> \<not> list_ex is_digit (js ''abc'')"
    by (simp add: str_eval)
  with cleanAndParse_empty_or_digitless [of "js ''abc''"] show ?thesis
    by blast
qed

text \<open>C3 as stated fails: the letters \<^verbatim>\<open>n/a\<close> parse to NaN, not to 0.\<close>

theorem cleanAndParse_letters_not_zero:
  "cleanAndParse (Str (js ''n/a'')) = NaN \<and> cleanAndParse (Str (js ''n/a'')) \<noteq> Fin 0"
  by (simp add: str_eval)

text \<open>
  C4. The filter keeps exactly the products with a discount rate of at least 40 and a
  price above 0, in their order. The bound is inclusive: the texts 60 and 100 give the
  rate 40 and the product is kept; 61 and 100 give 39 and it is dropped.
\<close>

theorem filter_keeps_deep_discounts:
  "validProducts k items
     = filter (\<lambda>q. js_ge (discount_rate q) (Fin 40) \<and> js_gt (price q) (Fin 0))
         (map (toProduct k) items)
   \<and> discount_rate (toProduct k (priced (js ''60'') (js ''100''))) = Fin 40
   \<and> validProducts k [priced (js ''60'') (js ''100'')]
       = [toProduct k (priced (js ''60'') (js ''100''))]
   \<and> discount_rate (toProduct k (priced (js ''61'') (js ''100''))) = Fin 39
   \<and> validProducts k [priced (js ''61'') (js ''100'')] = []"
proof -
  have a: "toProduct k (priced (js ''60'') (js ''100'')) =
      \<lparr>title = js ''Item'', price = Fin 60, original_price = Fin 100, discount_rate = Fin 40,
       image_url = [], product_url = js ''https://www.trendyol.com/item-p-1'',
       platform = k, external_id = js ''https://www.trendyol.com/item-p-1''\<rparr>"
    by (simp add: priced_def toProduct_def str_eval num_eval)
  have b: "toProduct k (priced (js ''61'') (js ''100'')) =
      \<lparr>title = js ''Item'', price = Fin 61, original_price = Fin 100, discount_rate = Fin 39,
       image_url = [], product_url = js ''https://www.trendyol.com/item-p-1'',
       platform = k, external_id = js ''https://www.trendyol.com/item-p-1''\<rparr>"
    by (simp add: priced_def toProduct_def str_eval num_eval)
  have d: "validProducts k items
     = filter (\<lambda>q. js_ge (discount_rate q) (Fin 40) \<and> js_gt (price q) (Fin 0))
         (map (toProduct k) items)"
    by (simp add: validProducts_def keep_def [abs_def])
  have e: "validProducts k [priced (js ''60'') (js ''100'')]
      = [toProduct k (priced (js ''60'') (js ''100''))]"
    unfolding validProducts_def list.map a by (simp add: keep_def js_ge_def)
  have f: "validProducts k [priced (js ''61'') (js ''100'')] = []"
    unfolding validProducts_def list.map b by (simp add: keep_def js_ge_def)
  have g: "discount_rate (toProduct k (priced (js ''60'') (js ''100''))) = Fin 40"
    unfolding a by simp
  have h: "discount_rate (toProduct k (priced (js ''61'') (js ''100''))) = Fin 39"
    unfolding b by simp
  from d e f g h show ?thesis by blast
qed

text \<open>
  C5. A raw item whose original-price text parses to 0 gets the sale price as its
  original price; its discount rate is then 0 and the filter drops it, whatever its sale
  price.
\<close>

theorem zero_original_price_dropped:
  assumes "cleanAndParse (Str (orgPriceStr p)) = Fin 0"
  shows "original_price (toProduct k p) = price (toProduct k p)
     \<and> discount_rate (toProduct k p) = Fin 0
     \<and> \<not> keep (toProduct k p)
     \<and> validProducts k [p] = []"
  using assms
  by (simp add: toProduct_def Let_def js_gt_irrefl keep_def js_ge_def validProducts_def
      floor_half)

theorem zero_original_price_dropped_witness:
  "cleanAndParse (Str (orgPriceStr (priced (js ''80 TL'') (js ''0 TL'')))) = Fin 0
   \<and> price (toProduct (js ''trendyol'') (priced (js ''80 TL'') (js ''0 TL''))) = Fin 80
   \<and> original_price (toProduct (js ''trendyol'') (priced (js ''80 TL'') (js ''0 TL''))) = Fin 80
   \<and> discount_rate (toProduct (js ''trendyol'') (priced (js ''80 TL'') (js ''0 TL''))) = Fin 0
   \<and> validProducts (js ''trendyol'') [priced (js ''80 TL'') (js ''0 TL'')] = []"
proof -
  have h: "cleanAndParse (Str (orgPriceStr (priced (js ''80 TL'') (js ''0 TL'')))) = Fin 0"
    by (simp add: priced_def str_eval num_eval)
  have p: "price (toProduct (js ''trendyol'') (priced (js ''80 TL'') (js ''0 TL''))) = Fin 80"
    by (simp add: priced_def toProduct_def str_eval num_eval)
  from zero_original_price_dropped [OF h, of "js ''trendyol''"] h p show ?thesis
    by simp
qed

text \<open>
  C6 fails on the code for the keys that \<^verbatim>\<open>CONFIG\<close> inherits from
  \<^verbatim>\<open>Object.prototype\<close>. The key \<^verbatim>\<open>constructor\<close> is no platform of the registry, yet
  \<^verbatim>\<open>CONFIG['constructor']\<close> is truthy, the guard lets it pass, and in every run in which the
  launch succeeds a browser is launched.
\<close>

theorem inherited_key_launches_browser:
  "CONFIG (js ''constructor'') = None
   \<and> CONFIG_get (js ''constructor'') = Some Inherited
   \<and> snd (scrape v (w\<lparr>launch := Resolved ()\<rparr>) (js ''constructor'')) \<noteq> []
   \<and> scrape v (answering doc) (js ''constructor'')
       = (Returned (Error_payload (js ''url: expected string, got undefined'')), [Launch, Close])"
proof -
  have c: "CONFIG (js ''constructor'') = None"
    by (simp add: CONFIG_def js_def)
  have g: "CONFIG_get (js ''constructor'') = Some Inherited"
    by (simp add: CONFIG_get_def CONFIG_def Object_prototype_keys_def js_def)
  have l: "snd (scrape v (w\<lparr>launch := Resolved ()\<rparr>) (js ''constructor'')) \<noteq> []"
    by (simp add: scrape_def g Let_def split: await.split)
  have a: "scrape v (answering doc) (js ''constructor'')
       = (Returned (Error_payload (js ''url: expected string, got undefined'')), [Launch, Close])"
    by (simp add: scrape_def try_block_def answering_page answering_calls g)
  from c g l a show ?thesis by blast
qed

text \<open>
  C7 fails on the code for every platform but Trendyol: the origin put before a
  relative link is the constant \<^verbatim>\<open>https://www.trendyol.com\<close>. On the Temu page a card
  with the link \<^verbatim>\<open>/goods.html?id=1\<close> becomes a product of platform \<^verbatim>\<open>temu\<close> whose address
  is on Trendyol's site.
\<close>

theorem temu_link_gets_trendyol_origin:
  "fst (scrape v (answering temu_page) (js ''temu'')) =
     Returned (Success
       \<lparr>total_found = 1, filtered_count = 1, saved_count = 1,
        data = [\<lparr>title = js ''Lamp'', price = Fin 50, original_price = Fin 100,
                 discount_rate = Fin 50, image_url = [],
                 product_url = js ''https://www.trendyol.com/goods.html?id=1'',
                 platform = js ''temu'',
                 external_id = js ''https://www.trendyol.com/goods.html?id=1''\<rparr>],
        debug_raw_data = [\<lparr>title = js ''Lamp'', priceStr = js ''50 TL'',
                           orgPriceStr = js ''100 TL'',
                           link = js ''https://www.trendyol.com/goods.html?id=1'',
                           img = []\<rparr>]\<rparr>)"
proof -
  let ?lamp = "\<lparr>title = js ''Lamp'', priceStr = js ''50 TL'', orgPriceStr = js ''100 TL'',
      link = js ''https://www.trendyol.com/goods.html?id=1'', img = []\<rparr>"
  let ?product = "\<lparr>title = js ''Lamp'', price = Fin 50, original_price = Fin 100,
      discount_rate = Fin 50, image_url = [],
      product_url = js ''https://www.trendyol.com/goods.html?id=1'', platform = js ''temu'',
      external_id = js ''https://www.trendyol.com/goods.html?id=1''\<rparr>"
  have cfg: "CONFIG_get (js ''temu'') =
      Some (Own \<lparr>url = js ''https://www.temu.com/az/channel/lightning-deals.html'',
                   selector = Classes [''goods-item'']\<rparr>)"
    by (simp add: CONFIG_get_def CONFIG_def js_def)
  have items: "extractItems v temu_page (Classes [''goods-item'']) = [?lamp]"
    by (cases v) (simp_all add: temu_page_def dom_eval str_eval)
  have lamp: "toProduct (js ''temu'') ?lamp = ?product"
    by (simp add: toProduct_def str_eval num_eval)
  have valid: "validProducts (js ''temu'') [?lamp] = [?product]"
    unfolding validProducts_def list.map lamp by (simp add: keep_def js_ge_def)
  show ?thesis
    by (simp add: scrape_def try_block_def answering_page answering_calls cfg items valid)
qed

text \<open>
  C8 fails on the code between the launch and the \<^verbatim>\<open>try\<close>: when \<^verbatim>\<open>browser.newContext\<close>,
  \<^verbatim>\<open>context.addCookies\<close> or \<^verbatim>\<open>context.newPage\<close> rejects, the cycle ends with that error, a
  browser has been launched, and \<^verbatim>\<open>browser.close()\<close> is never called.
\<close>

theorem browser_leaks_when_context_fails:
  "scrape v (w\<lparr>launch := Resolved (), newContext := Rejected m\<rparr>) (js ''trendyol'')
     = (Thrown m, [Launch])
   \<and> scrape ServerJs
        (w\<lparr>launch := Resolved (), newContext := Resolved (), addCookies := Rejected m\<rparr>)
        (js ''trendyol'')
     = (Thrown m, [Launch])
   \<and> scrape v
        (w\<lparr>launch := Resolved (), newContext := Resolved (), addCookies := Resolved (),
           newPage := Rejected m\<rparr>)
        (js ''trendyol'')
     = (Thrown m, [Launch])"
proof -
  have cfg: "CONFIG_get (js ''trendyol'') =
      Some (Own \<lparr>url = js ''https://www.trendyol.com/sr?wc=103328&fl=en-cok-one-cikanlar'',
                   selector = Classes [''product-card-jfy'']\<rparr>)"
    by (simp add: CONFIG_get_def CONFIG_def)
  show ?thesis
    by (cases v) (simp_all add: scrape_def acquire_page_def cfg)
qed

text \<open>
  C9. The two variants disagree. On a card whose sale-price selectors all come up
  empty and whose text is \<^verbatim>\<open>Was 100 TL now 60 tl\<close>, server.js takes the last match of the
  price pattern as the price and the first as the original price; the other variant
  leaves both texts empty.
\<close>

theorem variants_disagree_on_text_prices:
  "\<exists>el. sale_price_text el = []
     \<and> match_prices (innerText el) = [js ''100 TL'', js ''60 tl'']
     \<and> priceStr (extractItem ServerJs el) = js ''60 tl''
     \<and> orgPriceStr (extractItem ServerJs el) = js ''100 TL''
     \<and> priceStr (extractItem Part000 el) = []
     \<and> orgPriceStr (extractItem Part000 el) = []
     \<and> priceStr (extractItem ServerJs el) \<noteq> priceStr (extractItem Part000 el)"
proof -
  have m: "match_prices (js ''Was 100 TL now 60 tl'') = [js ''100 TL'', js ''60 tl'']"
    by (simp add: str_eval dom_eval)
  have "sale_price_text text_card = []
     \<and> match_prices (innerText text_card) = [js ''100 TL'', js ''60 tl'']
     \<and> priceStr (extractItem ServerJs text_card) = js ''60 tl''
     \<and> orgPriceStr (extractItem ServerJs text_card) = js ''100 TL''
     \<and> priceStr (extractItem Part000 text_card) = []
     \<and> orgPriceStr (extractItem Part000 text_card) = []
     \<and> priceStr (extractItem ServerJs text_card) \<noteq> priceStr (extractItem Part000 text_card)"
    by (simp add: text_card_def dom_eval m js_Nil_iff)
  then show ?thesis ..
qed

text \<open>
  C10. In every success response the counts are ordered: no more items are saved than
  pass the filter, and no more pass the filter than were found.
\<close>

theorem counts_ordered:
  assumes "fst (scrape v w platformKey) = Returned (Success s)"
  shows "saved_count s \<le> filtered_count s \<and> filtered_count s \<le> total_found s"
proof -
  from assms obtain config where
    t: "try_block v w platformKey config = Success s"
    by (auto simp: scrape_def Let_def split: option.splits await.splits)
  then obtain doc saved where
    sv: "save_all w 0 (validProducts platformKey (extractItems v doc (config_selector config))) []
           = Resolved saved"
    and s: "s = \<lparr>total_found = length (extractItems v doc (config_selector config)),
             filtered_count =
               length (validProducts platformKey (extractItems v doc (config_selector config))),
             saved_count = length saved,
             data = take 50 (validProducts platformKey (extractItems v doc (config_selector config))),
             debug_raw_data = take 10 (extractItems v doc (config_selector config))\<rparr>"
    by (auto simp: try_block_def Let_def split: await.splits)
  from save_all_length [OF sv] have "saved_count s \<le> filtered_count s"
    by (simp add: s)
  moreover have "filtered_count s \<le> total_found s"
    by (simp add: s validProducts_def)
  ultimately show ?thesis ..
qed

theorem counts_ordered_witness:
  "\<exists>s. fst (scrape ServerJs (answering trendyol_page) (js ''trendyol'')) = Returned (Success s)
    \<and> total_found s = 2 \<and> filtered_count s = 1 \<and> saved_count s = 1
    \<and> saved_count s \<le> filtered_count s \<and> filtered_count s \<le> total_found s"
proof -
  let ?kettle = "\<lparr>title = js ''Acme Kettle'', priceStr = js ''80 '' @ [manat],
      orgPriceStr = js ''160 '' @ [manat], link = js ''https://www.trendyol.com/kettle-p-7'',
      img = js ''https://cdn.dsmcdn.com/kettle.jpg''\<rparr>"
  let ?mug = "\<lparr>title = js ''Mug'', priceStr = js ''90 TL'', orgPriceStr = js ''90 TL'',
      link = js ''https://www.trendyol.com'', img = []\<rparr>"
  let ?product = "\<lparr>title = js ''Acme Kettle'', price = Fin 80, original_price = Fin 160,
      discount_rate = Fin 50, image_url = js ''https://cdn.dsmcdn.com/kettle.jpg'',
      product_url = js ''https://www.trendyol.com/kettle-p-7'', platform = js ''trendyol'',
      external_id = js ''https://www.trendyol.com/kettle-p-7''\<rparr>"
  have cfg: "CONFIG_get (js ''trendyol'') =
      Some (Own \<lparr>url = js ''https://www.trendyol.com/sr?wc=103328&fl=en-cok-one-cikanlar'',
                   selector = Classes [''product-card-jfy'']\<rparr>)"
    by (simp add: CONFIG_get_def CONFIG_def)
  have items: "extractItems ServerJs trendyol_page (Classes [''product-card-jfy''])
      = [?kettle, ?mug]"
    by (simp add: trendyol_page_def dom_eval str_eval)
  have kettle: "toProduct (js ''trendyol'') ?kettle = ?product"
    by (simp add: toProduct_def str_eval num_eval manat_def)
  have mug: "\<not> keep (toProduct (js ''trendyol'') ?mug)"
    by (simp add: toProduct_def keep_def js_ge_def str_eval num_eval)
  have valid: "validProducts (js ''trendyol'') [?kettle, ?mug] = [?product]"
    unfolding validProducts_def list.map kettle using mug by (simp add: keep_def js_ge_def)
  have run: "fst (scrape ServerJs (answering trendyol_page) (js ''trendyol'')) =
      Returned (Success \<lparr>total_found = 2, filtered_count = 1, saved_count = 1,
                          data = [?product], debug_raw_data = [?kettle, ?mug]\<rparr>)"
    by (simp add: scrape_def try_block_def answering_page answering_calls cfg items valid)
  from counts_ordered [OF run] run show ?thesis
    by simp
qed

end
